theory Spec2Isabelle
  imports Complex_Main
begin

section \<open>JSON values and the JavaScript operations the transport uses on them\<close>

text \<open>
  A parsed JSON value. An object is the list of its own properties, one entry per key,
  in insertion order.
\<close>

datatype json =
    JNull
  | JBool bool
  | JNum rat
  | JStr string
  | JArr "json list"
  | JObj "(string \<times> json) list"

text \<open>
  Everything the code can throw or pass on as an \<open>Error\<close>. The messages that
  interpolate a value keep the value: \<open>MessageSourceInvalid v\<close> is
  \<open>'Message source missing or invalid: ' + v\<close>, \<open>ClosedUnexpectedly c\<close> is
  \<open>`Incoming connection closed unexpectedly (code: ${c})`\<close> and
  \<open>ErrorInConnection m\<close> is \<open>'Error in incoming connection: ' + m\<close>.
\<close>

datatype error =
    SyntaxError
  | TypeError
  | Error string
  | MessageSourceInvalid "json option"
  | ClosedUnexpectedly nat
  | ErrorInConnection string

text \<open>
  A received frame is represented by what \<open>JSON.parse(data.toString())\<close> makes of
  it: \<open>None\<close> when the text is not JSON (the call throws a SyntaxError), the
  parsed value otherwise.
\<close>

type_synonym data = "json option"

definition JSON_parse :: "data \<Rightarrow> error + json" where
  "JSON_parse data = (case data of None \<Rightarrow> Inl SyntaxError | Some d \<Rightarrow> Inr d)"

text \<open>
  Property access \<open>d.k\<close> for the keys the code reads (\<open>src\<close>, \<open>id\<close>,
  \<open>method\<close>, \<open>params\<close>; no prototype defines them): it throws a TypeError on
  \<open>null\<close>, is \<open>undefined\<close> (here \<open>None\<close>) on the other primitives, on
  arrays and on an object without the key.
\<close>

fun js_get :: "json \<Rightarrow> string \<Rightarrow> error + json option" where
  "js_get JNull k = Inl TypeError"
| "js_get (JObj kvs) k = Inr (map_of kvs k)"
| "js_get (JBool b) k = Inr None"
| "js_get (JNum n) k = Inr None"
| "js_get (JStr s) k = Inr None"
| "js_get (JArr xs) k = Inr None"

text \<open>The truth value of \<open>if (v)\<close>.\<close>

fun truthy :: "json option \<Rightarrow> bool" where
  "truthy None = False"
| "truthy (Some JNull) = False"
| "truthy (Some (JBool b)) = b"
| "truthy (Some (JNum n)) = (n \<noteq> 0)"
| "truthy (Some (JStr s)) = (s \<noteq> [])"
| "truthy (Some (JArr xs)) = True"
| "truthy (Some (JObj kvs)) = True"

text \<open>
  A JavaScript object under construction: a property may hold \<open>undefined\<close>
  (\<open>None\<close>). \<open>obj_put\<close> is the assignment of one property (an existing key keeps
  its place), \<open>spread\<close> is \<open>{ ...base, ...extra }\<close>, and \<open>JSON_stringify\<close>
  leaves out the properties that hold \<open>undefined\<close>. The text that is sent is
  represented by the JSON value it encodes.
\<close>

type_synonym jsobj = "(string \<times> json option) list"

fun obj_put :: "jsobj \<Rightarrow> string \<Rightarrow> json option \<Rightarrow> jsobj" where
  "obj_put [] k v = [(k, v)]"
| "obj_put ((k', v') # kvs) k v =
     (if k' = k then (k, v) # kvs else (k', v') # obj_put kvs k v)"

fun spread :: "jsobj \<Rightarrow> jsobj \<Rightarrow> jsobj" where
  "spread base [] = base"
| "spread base ((k, v) # extra) = spread (obj_put base k v) extra"

fun JSON_stringify :: "jsobj \<Rightarrow> json" where
  "JSON_stringify kvs =
     JObj (concat (map (\<lambda>(k, v). case v of None \<Rightarrow> [] | Some j \<Rightarrow> [(k, j)]) kvs))"

section \<open>Sockets\<close>

datatype ready_state = CONNECTING | OPEN | CLOSING | CLOSED

datatype sock_event = EvOpen | EvClose | EvMessage | EvError

text \<open>
  The functions this program registers on a socket. \<open>OpenHandler h\<close> is the bound
  \<open>openHandler\<close> of the RPC handler \<open>h\<close>, and so on; \<open>OnceResolve p\<close> is the
  \<open>resolve\<close> of promise \<open>p\<close>, registered with \<open>once\<close> by
  \<open>awaitDisconnect\<close>.
\<close>

datatype listener =
    OpenHandler nat
  | CloseHandler nat
  | MessageHandler nat
  | ErrorHandler nat
  | OnceResolve nat

text \<open>
  A socket object: its \<open>readyState\<close>, its listeners in registration order, the
  frames handed to \<open>send\<close> while open, the calls of \<open>close\<close>, and whether the
  three \<open>once\<close> listeners of the server's \<open>handleConnection\<close> are registered.
\<close>

record socket =
  readyState :: ready_state
  listeners :: "(sock_event \<times> listener) list"
  sent :: "json list"
  closeCalls :: "(nat \<times> string) list"
  srvMessage :: bool
  srvClose :: bool
  srvError :: bool

text \<open>\<open>on\<close> appends; \<open>off\<close> removes the most recently added matching entry.\<close>

definition on :: "socket \<Rightarrow> sock_event \<Rightarrow> listener \<Rightarrow> socket" where
  "on sk ev l = sk\<lparr>listeners := listeners sk @ [(ev, l)]\<rparr>"

definition off :: "socket \<Rightarrow> sock_event \<Rightarrow> listener \<Rightarrow> socket" where
  "off sk ev l = sk\<lparr>listeners := rev (remove1 (ev, l) (rev (listeners sk)))\<rparr>"

section \<open>The JSON-RPC client\<close>

text \<open>
  Modelled from the spec: the Correlation Client (the \<open>json-rpc-2.0\<close> package's
  \<open>JSONRPCClient\<close>) is a dependency whose code is not part of the sources. A pending
  request is its correlation id (with its running expiry timer); a future that has been
  consumed is kept with its outcome.
\<close>

datatype rejection = ResponseError json | Reason string | SendFailed error

datatype outcome = Resolved "json option" | Rejected rejection

record client =
  lastId :: nat
  pending :: "nat list"
  settled :: "(nat \<times> outcome) list"

definition newClient :: client where
  "newClient = \<lparr>lastId = 0, pending = [], settled = []\<rparr>"

definition createJSONRPCRequest :: "nat \<Rightarrow> string \<Rightarrow> json option \<Rightarrow> jsobj" where
  "createJSONRPCRequest i method params =
     [(''jsonrpc'', Some (JStr ''2.0'')), (''id'', Some (JNum (of_nat i))),
      (''method'', Some (JStr method)), (''params'', params)]"

text \<open>
  Modelled from the spec: \<open>send\<close> assigns a fresh correlation id and stores the
  pending request before it transmits.
\<close>

definition client_begin :: "client \<Rightarrow> nat \<times> client" where
  "client_begin c =
     (let i = Suc (lastId c) in (i, c\<lparr>lastId := i, pending := pending c @ [i]\<rparr>))"

text \<open>
  Modelled from the spec: consuming a pending request removes it (and its timer) and
  settles its future; an id that is not pending is discarded silently.
\<close>

definition client_settle :: "client \<Rightarrow> nat \<Rightarrow> outcome \<Rightarrow> client" where
  "client_settle c i out =
     (if i \<in> set (pending c)
      then c\<lparr>pending := removeAll i (pending c), settled := settled c @ [(i, out)]\<rparr>
      else c)"

text \<open>
  Modelled from the spec: \<open>receive\<close> looks the pending request up by the
  response's \<open>id\<close> and resolves or rejects it with the response's \<open>result\<close> or
  \<open>error\<close>. Only a number equal to a pending id matches.
\<close>

definition response_outcome :: "json \<Rightarrow> outcome" where
  "response_outcome d =
     (case js_get d ''error'' of
        Inr (Some e) \<Rightarrow> Rejected (ResponseError e)
      | _ \<Rightarrow> (case js_get d ''result'' of Inr r \<Rightarrow> Resolved r | Inl _ \<Rightarrow> Resolved None))"

definition client_receive :: "client \<Rightarrow> json \<Rightarrow> client" where
  "client_receive c d =
     (case js_get d ''id'' of
        Inr (Some (JNum n)) \<Rightarrow>
          (case filter (\<lambda>i. of_nat i = n) (pending c) of
             [] \<Rightarrow> c
           | i # _ \<Rightarrow> client_settle c i (response_outcome d))
      | _ \<Rightarrow> c)"

text \<open>
  Modelled from the spec: \<open>rejectAll\<close> rejects every outstanding pending request
  with the reason, clears all timers and empties the pending set.
\<close>

definition rejectAllPendingRequests :: "client \<Rightarrow> string \<Rightarrow> client" where
  "rejectAllPendingRequests c message =
     c\<lparr>pending := [],
       settled := settled c @ map (\<lambda>i. (i, Rejected (Reason message))) (pending c)\<rparr>"

section \<open>The state: sockets, RPC handlers, the server\<close>

record options =
  clientId :: string
  requestTimeout :: nat

text \<open>The events an RPC handler emits, with their arguments.\<close>

datatype hevent =
    Connect
  | Disconnect nat string
  | Request string "json option"
  | StatusUpdate "json option"
  | Event "json option"
  | HError string

text \<open>
  An \<open>OutboundWebSocketRpcHandler\<close>: \<open>hsocket\<close> is its \<open>_socket\<close> (a
  reference to a socket, or \<open>null\<close>), \<open>hemitted\<close> the events it has emitted,
  oldest first.
\<close>

record handler =
  hsocket :: "nat option"
  hoptions :: options
  hclient :: client
  hemitted :: "hevent list"

datatype promise = Pending | Fulfilled | RejectedWith error

datatype srv_event =
    Listening
  | Close
  | Connection nat
  | Discover string
  | SrvError error

text \<open>
  The objects of the program, by reference: sockets and handlers live in stores indexed
  by their references, \<open>rpcHandlers\<close> is the server's registry, \<open>promises\<close>
  holds the promises returned by \<open>disconnect\<close>.
\<close>

record world =
  sockets :: "nat \<Rightarrow> socket"
  handlers :: "nat \<Rightarrow> handler"
  nextHandler :: nat
  rpcHandlers :: "string \<Rightarrow> nat option"
  srvOptions :: options
  srvEmitted :: "srv_event list"
  promises :: "nat \<Rightarrow> promise"
  nextPromise :: nat

definition hemit :: "world \<Rightarrow> nat \<Rightarrow> hevent \<Rightarrow> world" where
  "hemit w h e =
     w\<lparr>handlers := (handlers w)(h := (handlers w h)\<lparr>hemitted := hemitted (handlers w h) @ [e]\<rparr>)\<rparr>"

definition srvEmit :: "world \<Rightarrow> srv_event \<Rightarrow> world" where
  "srvEmit w e = w\<lparr>srvEmitted := srvEmitted w @ [e]\<rparr>"

section \<open>OutboundWebSocketRpcHandler\<close>

definition setupSocket :: "world \<Rightarrow> nat \<Rightarrow> world" where
  "setupSocket w h =
     (case hsocket (handlers w h) of
        None \<Rightarrow> w
      | Some s \<Rightarrow>
          w\<lparr>sockets := (sockets w)(s :=
              on (on (on (on (sockets w s) EvOpen (OpenHandler h)) EvClose (CloseHandler h))
                EvMessage (MessageHandler h)) EvError (ErrorHandler h))\<rparr>)"

text \<open>The constructor: it allocates the handler object and returns its reference.\<close>

definition newHandler :: "world \<Rightarrow> nat option \<Rightarrow> options \<Rightarrow> world \<times> nat" where
  "newHandler w socket opts =
     (let h = nextHandler w;
          w1 = w\<lparr>nextHandler := Suc h,
                 handlers := (handlers w)(h :=
                   \<lparr>hsocket = socket, hoptions = opts, hclient = newClient, hemitted = []\<rparr>)\<rparr>
      in (setupSocket w1 h, h))"

text \<open>The getter \<open>connected\<close> is \<open>connected_getter\<close> here.\<close>

definition isOpen :: "world \<Rightarrow> nat option \<Rightarrow> bool" where
  "isOpen w so = (case so of None \<Rightarrow> False | Some s \<Rightarrow> readyState (sockets w s) = OPEN)"

definition connected_getter :: "world \<Rightarrow> nat \<Rightarrow> bool" where
  "connected_getter w h = isOpen w (hsocket (handlers w h))"

text \<open>The setter \<open>set socket(socket)\<close>.\<close>

definition set_socket :: "world \<Rightarrow> nat \<Rightarrow> nat option \<Rightarrow> world" where
  "set_socket w h socket =
     (if socket = hsocket (handlers w h) then w
      else
        let oldSocket = hsocket (handlers w h);
            w1 = w\<lparr>handlers := (handlers w)(h := (handlers w h)\<lparr>hsocket := socket\<rparr>)\<rparr>;
            w2 = setupSocket w1 h
        in if (case socket of
                 None \<Rightarrow> True
               | Some s \<Rightarrow>
                   (case oldSocket of
                      None \<Rightarrow> True
                    | Some old \<Rightarrow> readyState (sockets w2 s) \<noteq> readyState (sockets w2 old)))
           then if isOpen w2 socket then hemit w2 h Connect
                else if isOpen w2 oldSocket then hemit w2 h (Disconnect 1000 ''Socket replaced'')
                else w2
           else w2)"

text \<open>
  Modelled from the spec: the socket is the \<open>ws\<close> package's \<open>WebSocket\<close>, a
  dependency. \<open>send\<close> writes the frame only while the socket is open and reports
  an error otherwise; \<open>failure\<close> is what the network reports for a frame that was
  written (\<open>None\<close>: it was transmitted). \<open>close\<close> starts the closing handshake
  of a socket that is open or connecting.
\<close>

definition ws_send :: "socket \<Rightarrow> json \<Rightarrow> error option \<Rightarrow> socket \<times> error option" where
  "ws_send sk frame failure =
     (case readyState sk of
        OPEN \<Rightarrow> (sk\<lparr>sent := sent sk @ [frame]\<rparr>, failure)
      | CONNECTING \<Rightarrow> (sk, Some (Error ''WebSocket is not open''))
      | CLOSING \<Rightarrow> (sk, Some (Error ''WebSocket is not open''))
      | CLOSED \<Rightarrow> (sk, Some (Error ''WebSocket is not open'')))"

definition ws_close :: "socket \<Rightarrow> nat \<Rightarrow> string \<Rightarrow> socket" where
  "ws_close sk code reason =
     (let sk1 = sk\<lparr>closeCalls := closeCalls sk @ [(code, reason)]\<rparr>
      in case readyState sk of
           OPEN \<Rightarrow> sk1\<lparr>readyState := CLOSING\<rparr>
         | CONNECTING \<Rightarrow> sk1\<lparr>readyState := CLOSING\<rparr>
         | CLOSING \<Rightarrow> sk1
         | CLOSED \<Rightarrow> sk1)"

definition set_client :: "world \<Rightarrow> nat \<Rightarrow> client \<Rightarrow> world" where
  "set_client w h c = w\<lparr>handlers := (handlers w)(h := (handlers w h)\<lparr>hclient := c\<rparr>)\<rparr>"

text \<open>
  \<open>sendRequest\<close> returns the settlement of its promise: \<open>None\<close> when it
  resolves, the error when it rejects.
\<close>

definition sendRequest :: "world \<Rightarrow> nat \<Rightarrow> jsobj \<Rightarrow> error option \<Rightarrow> world \<times> error option" where
  "sendRequest w h payload failure =
     (case hsocket (handlers w h) of
        None \<Rightarrow> (w, Some (Error ''WebSocket disconnected''))
      | Some s \<Rightarrow>
          (let data = spread [(''src'', Some (JStr (clientId (hoptions (handlers w h)))))] payload;
               r = ws_send (sockets w s) (JSON_stringify data) failure
           in (w\<lparr>sockets := (sockets w)(s := fst r)\<rparr>, snd r)))"

definition handleRequest :: "world \<Rightarrow> nat \<Rightarrow> jsobj \<Rightarrow> error option \<Rightarrow> world \<times> error option" where
  "handleRequest w h payload failure =
     (if \<not> connected_getter w h then (w, Some (Error ''WebSocket disconnected''))
      else sendRequest w h payload failure)"

text \<open>
  \<open>request\<close> returns the correlation id of the request; its future is read with
  \<open>future\<close> (not settled while the request is pending, the outcome recorded last
  for the id afterwards). When the transmit function rejects, the client rejects the future at
  once and removes the pending request (modelled from the spec).
\<close>

definition request :: "world \<Rightarrow> nat \<Rightarrow> string \<Rightarrow> json option \<Rightarrow> error option \<Rightarrow> world \<times> nat" where
  "request w h method params failure =
     (let w1 = hemit w h (Request method params);
          b = client_begin (hclient (handlers w1 h));
          w2 = set_client w1 h (snd b);
          r = handleRequest w2 h (createJSONRPCRequest (fst b) method params) failure
      in case snd r of
           None \<Rightarrow> (fst r, fst b)
         | Some e \<Rightarrow>
             (set_client (fst r) h
                (client_settle (hclient (handlers (fst r) h)) (fst b) (Rejected (SendFailed e))),
              fst b))"

definition future :: "world \<Rightarrow> nat \<Rightarrow> nat \<Rightarrow> outcome option" where
  "future w h i =
     (if i \<in> set (pending (hclient (handlers w h))) then None
      else map_of (rev (settled (hclient (handlers w h)))) i)"

definition newPromise :: "world \<Rightarrow> promise \<Rightarrow> world \<times> nat" where
  "newPromise w st =
     (w\<lparr>promises := (promises w)(nextPromise w := st), nextPromise := Suc (nextPromise w)\<rparr>,
      nextPromise w)"

definition awaitDisconnect :: "world \<Rightarrow> nat \<Rightarrow> world \<times> nat" where
  "awaitDisconnect w h =
     (case hsocket (handlers w h) of
        None \<Rightarrow> newPromise w Fulfilled
      | Some s \<Rightarrow>
          if readyState (sockets w s) = CLOSED then newPromise w Fulfilled
          else if readyState (sockets w s) \<noteq> CLOSING
          then newPromise w (RejectedWith (Error ''WebSocket is not disconnecting''))
          else
            (let r = newPromise w Pending
             in ((fst r)\<lparr>sockets := (sockets (fst r))(s :=
                   on (sockets (fst r) s) EvClose (OnceResolve (snd r)))\<rparr>, snd r)))"

text \<open>
  \<open>disconnect\<close> is an \<open>async\<close> function: the promise it returns settles as the
  one it awaits, so the two are one promise here.
\<close>

definition disconnect :: "world \<Rightarrow> nat \<Rightarrow> world \<times> nat" where
  "disconnect w h =
     (case hsocket (handlers w h) of
        None \<Rightarrow> newPromise w Fulfilled
      | Some s \<Rightarrow>
          (case readyState (sockets w s) of
             OPEN \<Rightarrow>
               awaitDisconnect
                 (w\<lparr>sockets := (sockets w)(s := ws_close (sockets w s) 1000 ''User request'')\<rparr>) h
           | CONNECTING \<Rightarrow>
               awaitDisconnect
                 (w\<lparr>sockets := (sockets w)(s := ws_close (sockets w s) 1000 ''User request'')\<rparr>) h
           | CLOSING \<Rightarrow> awaitDisconnect w h
           | CLOSED \<Rightarrow> newPromise w Fulfilled))"

definition destroy :: "world \<Rightarrow> nat \<Rightarrow> world \<times> nat" where
  "destroy w h =
     disconnect
       (set_client w h (rejectAllPendingRequests (hclient (handlers w h)) ''Connection closed'')) h"

definition handleOpen :: "world \<Rightarrow> nat \<Rightarrow> world" where
  "handleOpen w h = hemit w h Connect"

definition handleClose :: "world \<Rightarrow> nat \<Rightarrow> nat \<Rightarrow> string \<Rightarrow> world" where
  "handleClose w h code reason =
     (let w1 =
            (case hsocket (handlers w h) of
               None \<Rightarrow> w
             | Some s \<Rightarrow>
                 w\<lparr>sockets := (sockets w)(s :=
                     off (off (off (off (sockets w s) EvOpen (OpenHandler h))
                       EvClose (CloseHandler h)) EvMessage (MessageHandler h))
                       EvError (ErrorHandler h))\<rparr>)
      in hemit w1 h (Disconnect code reason))"

text \<open>
  \<open>handleMessage\<close> throws (\<open>Inl\<close>) only before it has changed anything, so the
  state at the throw is the state it was called in.
\<close>

definition handleMessage :: "world \<Rightarrow> nat \<Rightarrow> data \<Rightarrow> error + world" where
  "handleMessage w h data =
     (case JSON_parse data of
        Inl e \<Rightarrow> Inl e
      | Inr d \<Rightarrow>
          (case js_get d ''id'' of
             Inl e \<Rightarrow> Inl e
           | Inr i \<Rightarrow>
               if truthy i then Inr (set_client w h (client_receive (hclient (handlers w h)) d))
               else
                 (case js_get d ''method'' of
                    Inl e \<Rightarrow> Inl e
                  | Inr m \<Rightarrow>
                      if m = Some (JStr ''NotifyStatus'') \<or> m = Some (JStr ''NotifyFullStatus'')
                      then (case js_get d ''params'' of
                              Inl e \<Rightarrow> Inl e
                            | Inr p \<Rightarrow> Inr (hemit w h (StatusUpdate p)))
                      else if m = Some (JStr ''NotifyEvent'')
                      then (case js_get d ''params'' of
                              Inl e \<Rightarrow> Inl e
                            | Inr p \<Rightarrow> Inr (hemit w h (Event p)))
                      else Inr w)))"

definition handleError :: "world \<Rightarrow> nat \<Rightarrow> string \<Rightarrow> world" where
  "handleError w h err = hemit w h (HError err)"

section \<open>Events of a socket\<close>

datatype args = OpenArgs | CloseArgs nat string | MessageArgs data | ErrorArgs string

fun event_of :: "args \<Rightarrow> sock_event" where
  "event_of OpenArgs = EvOpen"
| "event_of (CloseArgs code reason) = EvClose"
| "event_of (MessageArgs d) = EvMessage"
| "event_of (ErrorArgs m) = EvError"

text \<open>
  Calling one registered listener of socket \<open>s\<close>. The result carries the state at
  the end of the call and the exception, if the listener threw. A \<open>once\<close> listener
  is removed before it runs. Every listener is registered for its own event only, so
  the other combinations do not occur.
\<close>

fun call_listener :: "listener \<Rightarrow> nat \<Rightarrow> args \<Rightarrow> world \<Rightarrow> world \<times> error option" where
  "call_listener (OpenHandler h) s OpenArgs w = (handleOpen w h, None)"
| "call_listener (CloseHandler h) s (CloseArgs code reason) w = (handleClose w h code reason, None)"
| "call_listener (MessageHandler h) s (MessageArgs d) w =
     (case handleMessage w h d of Inl e \<Rightarrow> (w, Some e) | Inr w1 \<Rightarrow> (w1, None))"
| "call_listener (ErrorHandler h) s (ErrorArgs m) w = (handleError w h m, None)"
| "call_listener (OnceResolve p) s a w =
     (w\<lparr>sockets := (sockets w)(s := off (sockets w s) (event_of a) (OnceResolve p)),
        promises := (promises w)(p := (if promises w p = Pending then Fulfilled else promises w p))\<rparr>,
      None)"
| "call_listener l s a w = (w, None)"

text \<open>
  \<open>emit\<close> calls the listeners that were registered for the event when it started,
  in registration order, and stops at the first one that throws.
\<close>

fun run_listeners :: "listener list \<Rightarrow> nat \<Rightarrow> args \<Rightarrow> world \<Rightarrow> world \<times> error option" where
  "run_listeners [] s a w = (w, None)"
| "run_listeners (l # ls) s a w =
     (case call_listener l s a w of
        (w1, Some e) \<Rightarrow> (w1, Some e)
      | (w1, None) \<Rightarrow> run_listeners ls s a w1)"

definition registered :: "world \<Rightarrow> nat \<Rightarrow> sock_event \<Rightarrow> listener list" where
  "registered w s ev = map snd (filter (\<lambda>el. fst el = ev) (listeners (sockets w s)))"

definition emit :: "world \<Rightarrow> nat \<Rightarrow> args \<Rightarrow> world \<times> error option" where
  "emit w s a = run_listeners (registered w s (event_of a)) s a w"

section \<open>OutboundWebSocketServer\<close>

definition getRpcHandler :: "world \<Rightarrow> string \<Rightarrow> world \<times> nat" where
  "getRpcHandler w deviceId =
     (case rpcHandlers w deviceId of
        Some rpcHandler \<Rightarrow> (w, rpcHandler)
      | None \<Rightarrow>
          (let n = newHandler w None (srvOptions w)
           in ((fst n)\<lparr>rpcHandlers := (rpcHandlers (fst n))(deviceId := Some (snd n))\<rparr>, snd n)))"

text \<open>The closures of \<open>handleConnection\<close> for the connection on \<open>socket\<close>.\<close>

definition removeListeners :: "world \<Rightarrow> nat \<Rightarrow> world" where
  "removeListeners w socket =
     w\<lparr>sockets := (sockets w)(socket :=
         (sockets w socket)\<lparr>srvMessage := False, srvClose := False, srvError := False\<rparr>)\<rparr>"

text \<open>
  \<open>messageHandler\<close> runs when its \<open>once\<close> registration has been removed, so
  the message it emits again reaches the listeners of the RPC handlers only. What the
  \<open>try\<close> block throws is caught with the state it has reached.
\<close>

definition srv_messageHandler :: "world \<Rightarrow> nat \<Rightarrow> data \<Rightarrow> world" where
  "srv_messageHandler w socket data =
     (let r =
            (case JSON_parse data of
               Inl e \<Rightarrow> (w, Some e)
             | Inr d \<Rightarrow>
                 (case js_get d ''src'' of
                    Inl e \<Rightarrow> (w, Some e)
                  | Inr (Some (JStr deviceId)) \<Rightarrow>
                      (case rpcHandlers w deviceId of
                         Some rpcHandler \<Rightarrow>
                           emit (set_socket w rpcHandler (Some socket)) socket (MessageArgs data)
                       | None \<Rightarrow>
                           (let n = newHandler w (Some socket) (srvOptions w)
                            in (srvEmit
                                  ((fst n)\<lparr>rpcHandlers :=
                                     (rpcHandlers (fst n))(deviceId := Some (snd n))\<rparr>)
                                  (Discover deviceId),
                                None)))
                  | Inr v \<Rightarrow> (w, Some (MessageSourceInvalid v))))
      in removeListeners
           (case snd r of None \<Rightarrow> fst r | Some e \<Rightarrow> srvEmit (fst r) (SrvError e)) socket)"

definition srv_closeHandler :: "world \<Rightarrow> nat \<Rightarrow> nat \<Rightarrow> world" where
  "srv_closeHandler w socket code =
     removeListeners (srvEmit w (SrvError (ClosedUnexpectedly code))) socket"

definition srv_errorHandler :: "world \<Rightarrow> nat \<Rightarrow> string \<Rightarrow> world" where
  "srv_errorHandler w socket message =
     removeListeners (srvEmit w (SrvError (ErrorInConnection message))) socket"

definition handleConnection :: "world \<Rightarrow> nat \<Rightarrow> world" where
  "handleConnection w socket =
     (let w1 = srvEmit w (Connection socket)
      in w1\<lparr>sockets := (sockets w1)(socket :=
           (sockets w1 socket)\<lparr>srvMessage := True, srvClose := True, srvError := True\<rparr>)\<rparr>)"

section \<open>What the network does to a socket\<close>

text \<open>
  Modelled from the spec: the socket reports a message, or its closing (its
  \<open>readyState\<close> is \<open>CLOSED\<close> by then), to the listeners registered at that
  moment. The server registers its listeners on a socket before any handler can, so
  they run first; a \<open>once\<close> registration is gone before its listener runs.
\<close>

definition clearSrv :: "world \<Rightarrow> nat \<Rightarrow> sock_event \<Rightarrow> world" where
  "clearSrv w s ev =
     w\<lparr>sockets := (sockets w)(s :=
         (case ev of
            EvMessage \<Rightarrow> (sockets w s)\<lparr>srvMessage := False\<rparr>
          | EvClose \<Rightarrow> (sockets w s)\<lparr>srvClose := False\<rparr>
          | EvError \<Rightarrow> (sockets w s)\<lparr>srvError := False\<rparr>
          | EvOpen \<Rightarrow> sockets w s))\<rparr>"

definition ws_message :: "world \<Rightarrow> nat \<Rightarrow> data \<Rightarrow> world \<times> error option" where
  "ws_message w s data =
     (let ls = registered w s EvMessage;
          w1 = (if srvMessage (sockets w s)
                then srv_messageHandler (clearSrv w s EvMessage) s data else w)
      in run_listeners ls s (MessageArgs data) w1)"

definition ws_emitClose :: "world \<Rightarrow> nat \<Rightarrow> nat \<Rightarrow> string \<Rightarrow> world \<times> error option" where
  "ws_emitClose w s code reason =
     (let w0 = w\<lparr>sockets := (sockets w)(s := (sockets w s)\<lparr>readyState := CLOSED\<rparr>)\<rparr>;
          ls = registered w0 s EvClose;
          w1 = (if srvClose (sockets w0 s)
                then srv_closeHandler (clearSrv w0 s EvClose) s code else w0)
      in run_listeners ls s (CloseArgs code reason) w1)"

section \<open>An initial state\<close>

definition newSocket :: "ready_state \<Rightarrow> socket" where
  "newSocket st =
     \<lparr>readyState = st, listeners = [], sent = [], closeCalls = [],
      srvMessage = False, srvClose = False, srvError = False\<rparr>"

text \<open>
  The state after the server's constructor: no handler, nothing emitted; socket \<open>s\<close>
  is a socket nobody listens to yet, in state \<open>st s\<close>.
\<close>

definition newServer :: "options \<Rightarrow> (nat \<Rightarrow> ready_state) \<Rightarrow> world" where
  "newServer opts st =
     \<lparr>sockets = (\<lambda>s. newSocket (st s)),
      handlers = (\<lambda>h. \<lparr>hsocket = None, hoptions = opts, hclient = newClient, hemitted = []\<rparr>),
      nextHandler = 0,
      rpcHandlers = (\<lambda>deviceId. None),
      srvOptions = opts,
      srvEmitted = [],
      promises = (\<lambda>p. Pending),
      nextPromise = 0\<rparr>"

definition opts0 :: options where
  "opts0 = \<lparr>clientId = ''node-shellies-ng-1'', requestTimeout = 10\<rparr>"

text \<open>
  Handler \<open>0\<close>, constructed on socket \<open>2\<close> in state \<open>old\<close>; every other
  socket is in state \<open>new\<close> and has no listener.
\<close>

definition attached :: "ready_state \<Rightarrow> ready_state \<Rightarrow> world" where
  "attached old new =
     fst (newHandler (newServer opts0 (\<lambda>s. if s = 2 then old else new)) (Some 2) opts0)"

text \<open>Handler \<open>0\<close> as \<open>getRpcHandler\<close> creates it: registered, without a socket.\<close>

definition socketless :: world where
  "socketless = fst (getRpcHandler (newServer opts0 (\<lambda>s. OPEN)) ''shellyplus1-aabbcc'')"

text \<open>An open socket \<open>2\<close> that has just connected: the server waits for its first message.\<close>

definition sniffing :: world where
  "sniffing = handleConnection (newServer opts0 (\<lambda>s. OPEN)) 2"

section \<open>Runs\<close>

text \<open>
  What can happen to a running server, one step at a time: calls of its callers and of
  the users of its handlers, and reports of the network.
\<close>

datatype action =
    GetRpcHandler string
  | HandleConnection nat
  | WsMessage nat data
  | WsClose nat nat string
  | SetSocket nat "nat option"
  | DoRequest nat string "json option" "error option"
  | Destroy nat

fun step :: "world \<Rightarrow> action \<Rightarrow> world" where
  "step w (GetRpcHandler deviceId) = fst (getRpcHandler w deviceId)"
| "step w (HandleConnection socket) = handleConnection w socket"
| "step w (WsMessage s data) = fst (ws_message w s data)"
| "step w (WsClose s code reason) = fst (ws_emitClose w s code reason)"
| "step w (SetSocket h socket) = set_socket w h socket"
| "step w (DoRequest h method params failure) = fst (request w h method params failure)"
| "step w (Destroy h) = fst (destroy w h)"

definition run :: "world \<Rightarrow> action list \<Rightarrow> world" where
  "run w acts = foldl step w acts"

text \<open>
  The first thing a freshly accepted socket reports is a message, its closing, or an
  error: the closure of \<open>handleConnection\<close> that runs for it. \<open>unusable\<close> says
  that no device identity comes out of it: the message is not JSON or has no string
  \<open>src\<close>, or the socket closed or failed first.
\<close>

datatype inbound = FirstMessage data | ClosedFirst nat | ErroredFirst string

fun first_event :: "world \<Rightarrow> nat \<Rightarrow> inbound \<Rightarrow> world" where
  "first_event w socket (FirstMessage data) = srv_messageHandler w socket data"
| "first_event w socket (ClosedFirst code) = srv_closeHandler w socket code"
| "first_event w socket (ErroredFirst message) = srv_errorHandler w socket message"

fun unusable :: "inbound \<Rightarrow> bool" where
  "unusable (FirstMessage None) = True"
| "unusable (FirstMessage (Some d)) =
     (case js_get d ''src'' of Inr (Some (JStr deviceId)) \<Rightarrow> False | _ \<Rightarrow> True)"
| "unusable (ClosedFirst code) = True"
| "unusable (ErroredFirst message) = True"

text \<open>
  The error that describes each such failure: the parser's SyntaxError, the TypeError
  of reading \<open>src\<close> from \<open>null\<close>, the message about the missing or invalid
  source with the value found, the message about the early close with its code, the
  message about the error with the socket error's text.
\<close>

fun inbound_error :: "inbound \<Rightarrow> error" where
  "inbound_error (FirstMessage None) = SyntaxError"
| "inbound_error (FirstMessage (Some d)) =
     (case js_get d ''src'' of Inl e \<Rightarrow> e | Inr v \<Rightarrow> MessageSourceInvalid v)"
| "inbound_error (ClosedFirst code) = ClosedUnexpectedly code"
| "inbound_error (ErroredFirst message) = ErrorInConnection message"

text \<open>
  A device that reconnects. Its first frame on socket \<open>2\<close> makes the server create
  handler \<open>0\<close>; socket \<open>2\<close> stays open while the device connects again on socket
  \<open>3\<close>, whose first frame makes the server put socket \<open>3\<close> in the handler.
\<close>

definition status_frame :: json where
  "status_frame =
     JObj [(''src'', JStr ''shellyplus1-aabbcc''), (''method'', JStr ''NotifyStatus''),
           (''params'', JObj [(''ble'', JObj [])])]"

definition reconnected :: world where
  "reconnected =
     run (newServer opts0 (\<lambda>s. OPEN))
       [HandleConnection 2, WsMessage 2 (Some status_frame),
        HandleConnection 3, WsMessage 3 (Some status_frame)]"

text \<open>Then the handler is destroyed, and socket \<open>3\<close> confirms that it has closed.\<close>

definition destroyed :: world where
  "destroyed = run reconnected [Destroy 0, WsClose 3 1000 []]"

section \<open>Basic facts\<close>

lemma readyState_on [simp]: "readyState (on sk ev l) = readyState sk"
  by (simp add: on_def)

lemma readyState_setupSocket [simp]:
  "readyState (sockets (setupSocket w h) s) = readyState (sockets w s)"
  by (simp add: setupSocket_def split: option.splits)

lemma isOpen_setupSocket [simp]: "isOpen (setupSocket w h) so = isOpen w so"
  by (simp add: isOpen_def split: option.splits)

lemma handlers_setupSocket [simp]: "handlers (setupSocket w h) = handlers w"
  by (simp add: setupSocket_def split: option.splits)

lemma rpcHandlers_setupSocket [simp]: "rpcHandlers (setupSocket w h) = rpcHandlers w"
  by (simp add: setupSocket_def split: option.splits)

lemma connected_hemit [simp]: "connected_getter (hemit w h e) h' = connected_getter w h'"
  by (simp add: connected_getter_def isOpen_def hemit_def split: option.splits)

lemma connected_set_client [simp]:
  "connected_getter (set_client w h c) h' = connected_getter w h'"
  by (simp add: connected_getter_def isOpen_def set_client_def split: option.splits)

lemma attached_simps:
  "hsocket (handlers (attached a b) 0) = Some 2"
  "hemitted (handlers (attached a b) 0) = []"
  "readyState (sockets (attached a b) 2) = a"
  "readyState (sockets (attached a b) 3) = b"
  "listeners (sockets (attached a b) 2) =
     [(EvOpen, OpenHandler 0), (EvClose, CloseHandler 0), (EvMessage, MessageHandler 0),
      (EvError, ErrorHandler 0)]"
  by (simp_all add: attached_def newHandler_def newServer_def setupSocket_def Let_def on_def
      newSocket_def)

lemma socketless_simps: "hsocket (handlers socketless 0) = None"
  by (simp add: socketless_def getRpcHandler_def newServer_def newHandler_def Let_def)

text \<open>The reconnecting device, step by step.\<close>

lemma reconnected_eval:
  "rpcHandlers reconnected ''shellyplus1-aabbcc'' = Some 0"
  "hsocket (handlers reconnected 0) = Some 3"
  "hemitted (handlers reconnected 0) = [StatusUpdate (Some (JObj [(''ble'', JObj [])]))]"
  "readyState (sockets reconnected 2) = OPEN"
  "readyState (sockets reconnected 3) = OPEN"
  "\<not> srvClose (sockets reconnected 2)"
  "listeners (sockets reconnected 2) =
     [(EvOpen, OpenHandler 0), (EvClose, CloseHandler 0), (EvMessage, MessageHandler 0),
      (EvError, ErrorHandler 0)]"
  "listeners (sockets reconnected 3) =
     [(EvOpen, OpenHandler 0), (EvClose, CloseHandler 0), (EvMessage, MessageHandler 0),
      (EvError, ErrorHandler 0)]"
  by (simp_all add: reconnected_def run_def status_frame_def newServer_def newSocket_def
      handleConnection_def srvEmit_def ws_message_def registered_def clearSrv_def
      srv_messageHandler_def JSON_parse_def Let_def newHandler_def setupSocket_def on_def
      removeListeners_def set_socket_def isOpen_def emit_def handleMessage_def hemit_def)

section \<open>Replacing the socket of a handler\<close>

text \<open>
  C1. When the setter replaces a socket \<open>old\<close> by a different one (or by
  \<open>null\<close>), the handler emits \<open>connect\<close> alone if the new socket is open and
  the old one was not, \<open>disconnect\<close> alone if the old one was open and the new one
  is not, and nothing if both are open or neither is.
\<close>

theorem socket_replacement_events:
  assumes "hsocket (handlers w h) = Some old" and "new \<noteq> Some old"
  shows "hemitted (handlers (set_socket w h new) h) = hemitted (handlers w h) @
     (if isOpen w new \<and> readyState (sockets w old) \<noteq> OPEN then [Connect]
      else if \<not> isOpen w new \<and> readyState (sockets w old) = OPEN
      then [Disconnect 1000 ''Socket replaced'']
      else [])"
  using assms
  by (auto simp: set_socket_def Let_def hemit_def isOpen_def split: option.splits)

theorem socket_replacement_events_witness:
  "hsocket (handlers (attached OPEN CONNECTING) 0) = Some 2 \<and> Some 3 \<noteq> Some (2::nat) \<and>
   hemitted (handlers (set_socket (attached OPEN CONNECTING) 0 (Some 3)) 0) =
     [Disconnect 1000 ''Socket replaced'']"
  using socket_replacement_events [of "attached OPEN CONNECTING" 0 2 "Some 3"]
  by (simp add: attached_simps isOpen_def)

text \<open>
  The setter touches no socket but the new one: the old socket keeps its
  \<open>readyState\<close> (it is not closed) and every listener it had.
\<close>

lemma set_socket_other_sockets:
  "new \<noteq> Some s \<Longrightarrow> sockets (set_socket w h new) s = sockets w s"
  by (auto simp: set_socket_def Let_def hemit_def setupSocket_def split: option.splits)

text \<open>
  C5. A replacement should unbind the handler's four listeners from the old socket and
  leave that socket open. The setter does the second only. When the device reconnects,
  the old socket \<open>2\<close> is still open and still carries the four listeners of handler
  \<open>0\<close>; when it closes afterwards, \<open>handleClose\<close> strips the listeners from the
  new socket \<open>3\<close> and the handler reports a disconnect while \<open>connected\<close> is true.
\<close>

theorem replaced_socket_keeps_listeners:
  "hsocket (handlers reconnected 0) = Some 3 \<and>
   readyState (sockets reconnected 2) = OPEN \<and>
   listeners (sockets reconnected 2) =
     [(EvOpen, OpenHandler 0), (EvClose, CloseHandler 0), (EvMessage, MessageHandler 0),
      (EvError, ErrorHandler 0)] \<and>
   listeners (sockets (run reconnected [WsClose 2 1006 []]) 3) = [] \<and>
   hemitted (handlers (run reconnected [WsClose 2 1006 []]) 0) =
     [StatusUpdate (Some (JObj [(''ble'', JObj [])])), Disconnect 1006 []] \<and>
   connected_getter (run reconnected [WsClose 2 1006 []]) 0"
  by (simp add: reconnected_eval run_def ws_emitClose_def registered_def Let_def
      handleClose_def hemit_def off_def connected_getter_def isOpen_def)

section \<open>The registry of handlers\<close>

lemma rpcHandlers_set_socket [simp]: "rpcHandlers (set_socket w h so) = rpcHandlers w"
  by (simp add: set_socket_def Let_def hemit_def)

lemma rpcHandlers_handleMessage:
  "handleMessage w h d = Inr w1 \<Longrightarrow> rpcHandlers w1 = rpcHandlers w"
  by (auto simp: handleMessage_def hemit_def set_client_def
      split: sum.splits if_splits)

lemma rpcHandlers_call_listener [simp]:
  "rpcHandlers (fst (call_listener l s a w)) = rpcHandlers w"
  by (cases "(l, s, a, w)" rule: call_listener.cases)
     (auto simp: handleOpen_def handleClose_def handleError_def hemit_def Let_def
       rpcHandlers_handleMessage split: option.splits sum.splits)

lemma rpcHandlers_run_listeners [simp]:
  "rpcHandlers (fst (run_listeners ls s a w)) = rpcHandlers w"
proof (induction ls arbitrary: w)
  case Nil
  then show ?case by simp
next
  case (Cons l ls)
  show ?case
  proof (cases "call_listener l s a w")
    case (Pair w1 r)
    have "rpcHandlers w1 = rpcHandlers w"
      using rpcHandlers_call_listener [of l s a w] Pair by simp
    then show ?thesis
      using Pair Cons.IH [of w1] by (cases r) simp_all
  qed
qed

lemma rpcHandlers_emit [simp]: "rpcHandlers (fst (emit w s a)) = rpcHandlers w"
  by (simp add: emit_def)

text \<open>The server's message closure adds an entry only for an identity that has none.\<close>

lemma rpcHandlers_srv_messageHandler:
  "rpcHandlers w deviceId = Some h \<Longrightarrow>
   rpcHandlers (srv_messageHandler w s data) deviceId = Some h"
  by (auto simp: srv_messageHandler_def Let_def removeListeners_def srvEmit_def newHandler_def
      split: sum.splits option.splits json.splits)

lemma rpcHandlers_step:
  "rpcHandlers w deviceId = Some h \<Longrightarrow> rpcHandlers (step w a) deviceId = Some h"
proof (cases a)
  case (GetRpcHandler x)
  then show "rpcHandlers w deviceId = Some h \<Longrightarrow> ?thesis"
    by (auto simp: getRpcHandler_def Let_def newHandler_def split: option.splits)
next
  case (HandleConnection s)
  then show "rpcHandlers w deviceId = Some h \<Longrightarrow> ?thesis"
    by (simp add: handleConnection_def Let_def srvEmit_def)
next
  case (WsMessage s data)
  then show "rpcHandlers w deviceId = Some h \<Longrightarrow> ?thesis"
    by (simp add: ws_message_def Let_def rpcHandlers_srv_messageHandler clearSrv_def)
next
  case (WsClose s code reason)
  then show "rpcHandlers w deviceId = Some h \<Longrightarrow> ?thesis"
    by (simp add: ws_emitClose_def Let_def srv_closeHandler_def removeListeners_def srvEmit_def
        clearSrv_def)
next
  case (SetSocket h' so)
  then show "rpcHandlers w deviceId = Some h \<Longrightarrow> ?thesis" by simp
next
  case (DoRequest h' m p f)
  then show "rpcHandlers w deviceId = Some h \<Longrightarrow> ?thesis"
    by (simp add: request_def Let_def handleRequest_def sendRequest_def set_client_def hemit_def
        split: option.splits)
next
  case (Destroy h')
  then show "rpcHandlers w deviceId = Some h \<Longrightarrow> ?thesis"
    by (simp add: destroy_def disconnect_def awaitDisconnect_def newPromise_def set_client_def
        Let_def split: option.splits ready_state.splits)
qed

lemma rpcHandlers_run:
  "rpcHandlers w deviceId = Some h \<Longrightarrow> rpcHandlers (run w acts) deviceId = Some h"
  unfolding run_def
  by (induction acts arbitrary: w) (simp_all add: rpcHandlers_step)

text \<open>
  C2. A call of \<open>getRpcHandler\<close> leaves the returned handler in the registry under
  the identity. If the identity had no entry, the handler is a new object without a
  socket, built with the server's options; otherwise nothing changes. Whatever happens
  afterwards, every later call for the identity returns that same handler and changes
  nothing.
\<close>

theorem getRpcHandler_same_instance:
  assumes "getRpcHandler w deviceId = (w1, rpcHandler)"
  shows "rpcHandlers w1 deviceId = Some rpcHandler \<and>
         (if rpcHandlers w deviceId = None
          then rpcHandler = nextHandler w \<and> nextHandler w1 = Suc (nextHandler w) \<and>
               hsocket (handlers w1 rpcHandler) = None \<and>
               hoptions (handlers w1 rpcHandler) = srvOptions w
          else w1 = w) \<and>
         (\<forall>acts. getRpcHandler (run w1 acts) deviceId = (run w1 acts, rpcHandler))"
proof -
  have first: "rpcHandlers w1 deviceId = Some rpcHandler"
    using assms
    by (auto simp: getRpcHandler_def newHandler_def Let_def split: option.splits)
  have later: "getRpcHandler (run w1 acts) deviceId = (run w1 acts, rpcHandler)" for acts
    using rpcHandlers_run [OF first, of acts] by (simp add: getRpcHandler_def)
  show ?thesis
    using assms first later
    by (auto simp: getRpcHandler_def newHandler_def Let_def setupSocket_def split: option.splits)
qed

theorem getRpcHandler_same_instance_witness:
  "getRpcHandler (newServer opts0 (\<lambda>s. OPEN)) ''shellyplus1-aabbcc'' =
     (fst (getRpcHandler (newServer opts0 (\<lambda>s. OPEN)) ''shellyplus1-aabbcc''), 0) \<and>
   getRpcHandler
     (run (fst (getRpcHandler (newServer opts0 (\<lambda>s. OPEN)) ''shellyplus1-aabbcc''))
        [HandleConnection 2, GetRpcHandler ''other''])
     ''shellyplus1-aabbcc'' =
     (run (fst (getRpcHandler (newServer opts0 (\<lambda>s. OPEN)) ''shellyplus1-aabbcc''))
        [HandleConnection 2, GetRpcHandler ''other''], 0)"
proof -
  have g: "getRpcHandler (newServer opts0 (\<lambda>s. OPEN)) ''shellyplus1-aabbcc'' =
     (fst (getRpcHandler (newServer opts0 (\<lambda>s. OPEN)) ''shellyplus1-aabbcc''), 0)"
    by (simp add: getRpcHandler_def newServer_def newHandler_def Let_def)
  show ?thesis
    using g getRpcHandler_same_instance [OF g] by simp
qed

section \<open>Requests\<close>

lemma handleRequest_not_connected:
  "\<not> connected_getter w h \<Longrightarrow>
   handleRequest w h payload failure = (w, Some (Error ''WebSocket disconnected''))"
  by (simp add: handleRequest_def)

text \<open>
  C3. A request on a handler that is not connected (no socket, or a socket that is not
  open) changes no socket, so nothing is sent, and its future is rejected.
\<close>

theorem request_not_connected:
  assumes "\<not> connected_getter w h"
  shows "sockets (fst (request w h method params failure)) = sockets w \<and>
         future (fst (request w h method params failure)) h
           (snd (request w h method params failure)) =
           Some (Rejected (SendFailed (Error ''WebSocket disconnected'')))"
proof -
  let ?b = "client_begin (hclient (handlers (hemit w h (Request method params)) h))"
  let ?w2 = "set_client (hemit w h (Request method params)) h (snd ?b)"
  have nc: "\<not> connected_getter ?w2 h"
    using assms by simp
  have r: "request w h method params failure =
      (set_client ?w2 h
         (client_settle (hclient (handlers ?w2 h)) (fst ?b)
            (Rejected (SendFailed (Error ''WebSocket disconnected'')))), fst ?b)"
    by (simp add: request_def Let_def handleRequest_not_connected [OF nc])
  show ?thesis
    unfolding r
    by (simp add: set_client_def hemit_def client_begin_def client_settle_def future_def Let_def)
qed

theorem request_not_connected_witness:
  "\<not> connected_getter socketless 0 \<and>
   sockets (fst (request socketless 0 ''Shelly.GetStatus'' None None)) = sockets socketless \<and>
   snd (request socketless 0 ''Shelly.GetStatus'' None None) = 1 \<and>
   future (fst (request socketless 0 ''Shelly.GetStatus'' None None)) 0 1 =
     Some (Rejected (SendFailed (Error ''WebSocket disconnected'')))"
proof -
  have nc: "\<not> connected_getter socketless 0"
    by (simp add: connected_getter_def isOpen_def socketless_simps)
  have i: "snd (request socketless 0 ''Shelly.GetStatus'' None None) = 1"
    by (simp add: request_def Let_def client_begin_def hemit_def set_client_def
        socketless_def getRpcHandler_def newServer_def newHandler_def newClient_def
        split: option.splits)
  show ?thesis
    using nc i request_not_connected [OF nc, of "''Shelly.GetStatus''" None None] by simp
qed

text \<open>
  C9. A request on a handler whose socket is open writes one frame to that socket: the
  object with \<open>src\<close> set to the handler's \<open>clientId\<close>, followed by the
  \<open>jsonrpc\<close>, \<open>id\<close>, \<open>method\<close> and (when given) \<open>params\<close> of the
  request. This holds whatever the network reports for the frame, so in particular
  when it is transmitted.
\<close>

theorem request_payload_src:
  assumes "hsocket (handlers w h) = Some s" and "readyState (sockets w s) = OPEN"
  shows "sent (sockets (fst (request w h method params failure)) s) =
           sent (sockets w s) @
           [JObj ([(''src'', JStr (clientId (hoptions (handlers w h)))),
                   (''jsonrpc'', JStr ''2.0''),
                   (''id'', JNum (of_nat (snd (request w h method params failure)))),
                   (''method'', JStr method)] @
                  (case params of None \<Rightarrow> [] | Some p \<Rightarrow> [(''params'', p)]))] \<and>
         js_get (last (sent (sockets (fst (request w h method params failure)) s))) ''src'' =
           Inr (Some (JStr (clientId (hoptions (handlers w h)))))"
  using assms
  by (simp add: request_def handleRequest_def sendRequest_def Let_def connected_getter_def
      isOpen_def client_begin_def set_client_def hemit_def ws_send_def createJSONRPCRequest_def
      split: option.splits)

theorem request_payload_src_witness:
  "hsocket (handlers (attached OPEN OPEN) 0) = Some 2 \<and>
   readyState (sockets (attached OPEN OPEN) 2) = OPEN \<and>
   sent (sockets (fst (request (attached OPEN OPEN) 0 ''Shelly.GetStatus'' None None)) 2) =
     [JObj [(''src'', JStr ''node-shellies-ng-1''), (''jsonrpc'', JStr ''2.0''),
            (''id'', JNum 1), (''method'', JStr ''Shelly.GetStatus'')]]"
proof -
  have i: "snd (request (attached OPEN OPEN) 0 ''Shelly.GetStatus'' None None) = 1"
    by (simp add: request_def Let_def client_begin_def hemit_def set_client_def
        attached_def newServer_def newHandler_def newClient_def setupSocket_def
        split: option.splits)
  have s: "sent (sockets (attached OPEN OPEN) 2) = []"
    "clientId (hoptions (handlers (attached OPEN OPEN) 0)) = ''node-shellies-ng-1''"
    by (simp_all add: attached_def newServer_def newHandler_def setupSocket_def on_def
        newSocket_def opts0_def)
  show ?thesis
    using request_payload_src [of "attached OPEN OPEN" 0 2 "''Shelly.GetStatus''" None None]
    by (simp add: attached_simps i s)
qed

section \<open>Destroying a handler\<close>

lemma handlers_newPromise [simp]: "handlers (fst (newPromise w st)) = handlers w"
  by (simp add: newPromise_def)

lemma handlers_awaitDisconnect [simp]: "handlers (fst (awaitDisconnect w h)) = handlers w"
  by (simp add: awaitDisconnect_def Let_def split: option.splits)

lemma handlers_disconnect [simp]: "handlers (fst (disconnect w h)) = handlers w"
  by (simp add: disconnect_def split: option.splits ready_state.splits)

text \<open>What \<open>destroy\<close> does do: every pending request is rejected, no timer is left.\<close>

lemma destroy_rejects_pending:
  "pending (hclient (handlers (fst (destroy w h)) h)) = [] \<and>
   settled (hclient (handlers (fst (destroy w h)) h)) =
     settled (hclient (handlers w h)) @
     map (\<lambda>i. (i, Rejected (Reason ''Connection closed''))) (pending (hclient (handlers w h)))"
  by (simp add: destroy_def set_client_def rejectAllPendingRequests_def)

text \<open>Without a socket its promise is fulfilled at once.\<close>

lemma destroy_no_socket:
  assumes "hsocket (handlers w h) = None"
  shows "promises (fst (destroy w h)) (snd (destroy w h)) = Fulfilled \<and>
         sockets (fst (destroy w h)) = sockets w"
  using assms by (simp add: destroy_def disconnect_def set_client_def newPromise_def)

text \<open>
  On a socket that is open or connecting it calls \<open>close(1000, 'User request')\<close> and
  waits for the socket's \<open>close\<close> event; on a closing socket it only waits.
\<close>

lemma destroy_open_or_connecting:
  assumes "hsocket (handlers w h) = Some s"
    and "readyState (sockets w s) = OPEN \<or> readyState (sockets w s) = CONNECTING"
  shows "closeCalls (sockets (fst (destroy w h)) s) =
           closeCalls (sockets w s) @ [(1000, ''User request'')] \<and>
         readyState (sockets (fst (destroy w h)) s) = CLOSING \<and>
         promises (fst (destroy w h)) (snd (destroy w h)) = Pending \<and>
         listeners (sockets (fst (destroy w h)) s) =
           listeners (sockets w s) @ [(EvClose, OnceResolve (snd (destroy w h)))]"
  using assms
  by (auto simp: destroy_def disconnect_def set_client_def newPromise_def awaitDisconnect_def
      ws_close_def Let_def on_def)

lemma destroy_closing:
  assumes "hsocket (handlers w h) = Some s" and "readyState (sockets w s) = CLOSING"
  shows "closeCalls (sockets (fst (destroy w h)) s) = closeCalls (sockets w s) \<and>
         readyState (sockets (fst (destroy w h)) s) = CLOSING \<and>
         promises (fst (destroy w h)) (snd (destroy w h)) = Pending \<and>
         listeners (sockets (fst (destroy w h)) s) =
           listeners (sockets w s) @ [(EvClose, OnceResolve (snd (destroy w h)))]"
  using assms
  by (auto simp: destroy_def disconnect_def set_client_def newPromise_def awaitDisconnect_def
      Let_def on_def)

text \<open>No listener throws on a \<open>close\<close> event, and the event fulfils a waiting promise.\<close>

lemma call_listener_close:
  "snd (call_listener l s (CloseArgs code reason) w) = None \<and>
   promises (fst (call_listener l s (CloseArgs code reason) w)) p =
     (if l = OnceResolve p \<and> promises w p = Pending then Fulfilled else promises w p)"
  by (cases l) (auto simp: handleClose_def hemit_def Let_def split: option.splits)

lemma run_listeners_close:
  "snd (run_listeners ls s (CloseArgs code reason) w) = None \<and>
   promises (fst (run_listeners ls s (CloseArgs code reason) w)) p =
     (if OnceResolve p \<in> set ls \<and> promises w p = Pending then Fulfilled else promises w p)"
proof (induction ls arbitrary: w)
  case Nil
  then show ?case by simp
next
  case (Cons l ls)
  obtain w1 where c: "call_listener l s (CloseArgs code reason) w = (w1, None)"
    using call_listener_close [of l s code reason w]
    by (cases "call_listener l s (CloseArgs code reason) w") auto
  have p1: "promises w1 p =
      (if l = OnceResolve p \<and> promises w p = Pending then Fulfilled else promises w p)"
    using call_listener_close [of l s code reason w p] c by simp
  show ?case
    using Cons.IH [of w1] c p1 by auto
qed

lemma close_confirmation_resolves:
  assumes "(EvClose, OnceResolve p) \<in> set (listeners (sockets w s))"
    and "promises w p = Pending"
  shows "promises (fst (ws_emitClose w s code reason)) p = Fulfilled"
proof -
  have "OnceResolve p \<in> set (registered
      (w\<lparr>sockets := (sockets w)(s := (sockets w s)\<lparr>readyState := CLOSED\<rparr>)\<rparr>) s EvClose)"
    using assms(1) by (force simp: registered_def)
  then show ?thesis
    using assms(2)
    by (simp add: ws_emitClose_def Let_def run_listeners_close srv_closeHandler_def
        removeListeners_def srvEmit_def clearSrv_def)
qed

text \<open>
  A handler that has had one socket only is left without listeners: destroyed while its
  socket is open, it is unbound when the socket confirms the close.
\<close>

lemma destroy_unbinds_current_socket:
  "promises (run (attached OPEN OPEN) [Destroy 0, WsClose 2 1000 []]) 0 = Fulfilled \<and>
   listeners (sockets (run (attached OPEN OPEN) [Destroy 0, WsClose 2 1000 []]) 2) = []"
  by (simp add: run_def attached_def newHandler_def newServer_def newSocket_def newClient_def
      setupSocket_def on_def off_def Let_def destroy_def disconnect_def set_client_def
      rejectAllPendingRequests_def awaitDisconnect_def newPromise_def ws_close_def
      ws_emitClose_def registered_def handleClose_def hemit_def)

text \<open>
  C4. After \<open>destroy\<close> has resolved, no listener of the handler should be left on
  any socket. For the device that reconnected it does resolve when socket \<open>3\<close>
  confirms the close, and socket \<open>3\<close> is unbound; but socket \<open>2\<close>, replaced
  earlier and still open, keeps the four listeners of handler \<open>0\<close>.
\<close>

theorem destroy_leaves_replaced_socket_bound:
  "promises destroyed 0 = Fulfilled \<and>
   pending (hclient (handlers destroyed 0)) = [] \<and>
   listeners (sockets destroyed 3) = [] \<and>
   readyState (sockets destroyed 2) = OPEN \<and>
   listeners (sockets destroyed 2) =
     [(EvOpen, OpenHandler 0), (EvClose, CloseHandler 0), (EvMessage, MessageHandler 0),
      (EvError, ErrorHandler 0)]"
  by (simp add: destroyed_def reconnected_def run_def status_frame_def newServer_def
      newSocket_def handleConnection_def srvEmit_def ws_message_def registered_def clearSrv_def
      srv_messageHandler_def JSON_parse_def Let_def newHandler_def setupSocket_def on_def
      off_def removeListeners_def set_socket_def isOpen_def emit_def handleMessage_def
      hemit_def destroy_def disconnect_def set_client_def rejectAllPendingRequests_def
      newClient_def awaitDisconnect_def newPromise_def ws_close_def ws_emitClose_def
      handleClose_def)

section \<open>The close report of a socket\<close>

text \<open>\<open>handleClose\<close> emits \<open>disconnect\<close> in every state and keeps its socket.\<close>

lemma handleClose_emits:
  "hemitted (handlers (handleClose w h' code reason) h) =
     hemitted (handlers w h) @ (if h' = h then [Disconnect code reason] else []) \<and>
   hsocket (handlers (handleClose w h' code reason) h) = hsocket (handlers w h)"
  by (simp add: handleClose_def hemit_def Let_def split: option.splits)

lemma call_listener_close_hemitted:
  "hemitted (handlers (fst (call_listener l s (CloseArgs code reason) w)) h) =
     hemitted (handlers w h) @ (if l = CloseHandler h then [Disconnect code reason] else [])"
  by (cases l) (auto simp: handleClose_emits)

lemma run_listeners_close_hemitted:
  "hemitted (handlers (fst (run_listeners ls s (CloseArgs code reason) w)) h) =
     hemitted (handlers w h) @
     replicate (count_list ls (CloseHandler h)) (Disconnect code reason)"
proof (induction ls arbitrary: w)
  case Nil
  then show ?case by simp
next
  case (Cons l ls)
  obtain w1 where c: "call_listener l s (CloseArgs code reason) w = (w1, None)"
    using call_listener_close [of l s code reason w]
    by (cases "call_listener l s (CloseArgs code reason) w") auto
  have h1: "hemitted (handlers w1 h) =
      hemitted (handlers w h) @ (if l = CloseHandler h then [Disconnect code reason] else [])"
    using call_listener_close_hemitted [of l s code reason w h] c by simp
  show ?case
    using Cons.IH [of w1] c h1 by simp
qed

text \<open>
  A close report of a socket makes a handler emit \<open>disconnect\<close> once for every
  registration of its \<open>closeHandler\<close> on that socket, and nothing else.
\<close>

lemma ws_emitClose_hemitted:
  "hemitted (handlers (fst (ws_emitClose w s code reason)) h) =
     hemitted (handlers w h) @
     replicate (count_list (registered w s EvClose) (CloseHandler h)) (Disconnect code reason) \<and>
   snd (ws_emitClose w s code reason) = None"
  by (simp add: ws_emitClose_def Let_def run_listeners_close_hemitted run_listeners_close
      registered_def srv_closeHandler_def removeListeners_def srvEmit_def clearSrv_def)

text \<open>
  C6, as the code has it. When the socket that a handler has, and on which its
  \<open>closeHandler\<close> is registered (once, as the constructor and the setter register
  it), reports that it has closed, the handler emits exactly one \<open>disconnect\<close>
  with the code and the reason of the report, and nothing is thrown: in every such
  state, whether the handler was ever connected or not.
\<close>

theorem close_report_emits_disconnect:
  assumes "hsocket (handlers w h) = Some s"
    and "count_list (registered w s EvClose) (CloseHandler h) = 1"
  shows "hemitted (handlers (fst (ws_emitClose w s code reason)) h) =
           hemitted (handlers w h) @ [Disconnect code reason] \<and>
         snd (ws_emitClose w s code reason) = None"
  using assms(2) ws_emitClose_hemitted [of w s code reason h] by simp

theorem close_report_emits_disconnect_witness:
  "hsocket (handlers (attached CLOSING OPEN) 0) = Some 2 \<and>
   count_list (registered (attached CLOSING OPEN) 2 EvClose) (CloseHandler 0) = 1 \<and>
   hemitted (handlers (fst (ws_emitClose (attached CLOSING OPEN) 2 1000 ''bye'')) 0) =
     [Disconnect 1000 ''bye'']"
proof -
  have c: "count_list (registered (attached CLOSING OPEN) 2 EvClose) (CloseHandler 0) = 1"
    by (simp add: registered_def attached_simps)
  show ?thesis
    using c close_report_emits_disconnect [of "attached CLOSING OPEN" 0 2 1000 "''bye''"]
    by (simp add: attached_simps)
qed

text \<open>
  Against C6 as stated: a handler built on a socket that is still connecting has
  emitted nothing and is not connected; the socket closes without having opened, and
  the handler emits \<open>disconnect\<close>.
\<close>

theorem close_without_connect:
  "\<not> connected_getter (attached CONNECTING CONNECTING) 0 \<and>
   hemitted (handlers (attached CONNECTING CONNECTING) 0) = [] \<and>
   hemitted (handlers (fst (ws_emitClose (attached CONNECTING CONNECTING) 2 1006 [])) 0) =
     [Disconnect 1006 []]"
  by (simp add: connected_getter_def isOpen_def attached_def newHandler_def newServer_def
      setupSocket_def Let_def on_def off_def newSocket_def ws_emitClose_def registered_def
      handleClose_def hemit_def)

section \<open>Inbound sockets without a device identity\<close>

lemma srv_messageHandler_failure:
  assumes "unusable (FirstMessage data)"
  shows "srv_messageHandler w s data =
           removeListeners (srvEmit w (SrvError (inbound_error (FirstMessage data)))) s"
  using assms
  by (cases data)
     (auto simp: srv_messageHandler_def JSON_parse_def Let_def
       split: sum.splits option.splits json.splits)

text \<open>
  C7, as the code has it. When the first thing an inbound socket reports gives no
  device identity, the server emits one \<open>error\<close> event, the one that describes the
  failure, and removes its listeners from the socket; the registry and the handlers are
  unchanged, and no socket is touched otherwise: the socket is not closed.
\<close>

theorem inbound_failure_abandons:
  assumes "unusable ev" and "w' = first_event w s ev"
  shows "srvEmitted w' = srvEmitted w @ [SrvError (inbound_error ev)] \<and>
         rpcHandlers w' = rpcHandlers w \<and> handlers w' = handlers w \<and>
         nextHandler w' = nextHandler w \<and>
         (\<forall>s'. readyState (sockets w' s') = readyState (sockets w s') \<and>
               closeCalls (sockets w' s') = closeCalls (sockets w s') \<and>
               sent (sockets w' s') = sent (sockets w s') \<and>
               listeners (sockets w' s') = listeners (sockets w s')) \<and>
         \<not> srvMessage (sockets w' s) \<and> \<not> srvClose (sockets w' s) \<and>
         \<not> srvError (sockets w' s)"
proof -
  have "w' = removeListeners (srvEmit w (SrvError (inbound_error ev))) s"
  proof (cases ev)
    case (FirstMessage data)
    then show ?thesis
      using assms srv_messageHandler_failure [of data w s] by simp
  next
    case (ClosedFirst code)
    then show ?thesis using assms by (simp add: srv_closeHandler_def)
  next
    case (ErroredFirst message)
    then show ?thesis using assms by (simp add: srv_errorHandler_def)
  qed
  then show ?thesis
    by (simp add: removeListeners_def srvEmit_def)
qed

theorem inbound_failure_abandons_witness:
  "unusable (FirstMessage (Some (JObj [(''method'', JStr ''NotifyStatus'')]))) \<and>
   srvEmitted
     (first_event sniffing 2 (FirstMessage (Some (JObj [(''method'', JStr ''NotifyStatus'')])))) =
     [Connection 2, SrvError (MessageSourceInvalid None)] \<and>
   rpcHandlers
     (first_event sniffing 2 (FirstMessage (Some (JObj [(''method'', JStr ''NotifyStatus'')])))) =
     rpcHandlers sniffing"
  using inbound_failure_abandons
    [of "FirstMessage (Some (JObj [(''method'', JStr ''NotifyStatus'')]))"
      "first_event sniffing 2 (FirstMessage (Some (JObj [(''method'', JStr ''NotifyStatus'')])))"
      sniffing 2]
  by (simp add: srv_messageHandler_def JSON_parse_def Let_def removeListeners_def srvEmit_def
      sniffing_def handleConnection_def newServer_def)

text \<open>
  Against C7 as stated: the first message of the open socket \<open>2\<close> is not JSON. The
  server emits the error, and the socket is still open: \<open>close\<close> was never called.
\<close>

theorem inbound_failure_not_closed:
  "srvMessage (sockets sniffing 2) \<and>
   readyState (sockets (fst (ws_message sniffing 2 None)) 2) = OPEN \<and>
   closeCalls (sockets (fst (ws_message sniffing 2 None)) 2) = [] \<and>
   srvEmitted (fst (ws_message sniffing 2 None)) = [Connection 2, SrvError SyntaxError]"
  by (simp add: ws_message_def registered_def clearSrv_def srv_messageHandler_def JSON_parse_def
      Let_def removeListeners_def srvEmit_def sniffing_def handleConnection_def newServer_def
      newSocket_def)

section \<open>Dispatch of received frames\<close>

text \<open>A frame that is not JSON, or is \<open>null\<close>, makes \<open>handleMessage\<close> throw.\<close>

lemma handleMessage_throws:
  "handleMessage w h None = Inl SyntaxError \<and> handleMessage w h (Some JNull) = Inl TypeError"
  by (simp add: handleMessage_def JSON_parse_def)

lemma js_get_defined: "d \<noteq> JNull \<Longrightarrow> \<exists>v. js_get d k = Inr v"
  by (cases d) simp_all

text \<open>
  C8, as the code has it. For a frame that parses to a value \<open>d\<close> other than
  \<open>null\<close>, with \<open>i\<close>, \<open>m\<close>, \<open>p\<close> its \<open>id\<close>, \<open>method\<close> and
  \<open>params\<close>: a truthy \<open>id\<close> hands the frame to the client's \<open>receive\<close>;
  otherwise \<open>NotifyStatus\<close> and \<open>NotifyFullStatus\<close> emit \<open>statusUpdate\<close> with
  the params, \<open>NotifyEvent\<close> emits \<open>event\<close> with the params, and any other frame
  is ignored: nothing is emitted, nothing is thrown, the state is unchanged.
\<close>

theorem handleMessage_dispatch:
  assumes "js_get d ''id'' = Inr i" and "js_get d ''method'' = Inr m"
    and "js_get d ''params'' = Inr p"
  shows "handleMessage w h (Some d) = Inr
     (if truthy i then set_client w h (client_receive (hclient (handlers w h)) d)
      else if m = Some (JStr ''NotifyStatus'') \<or> m = Some (JStr ''NotifyFullStatus'')
      then hemit w h (StatusUpdate p)
      else if m = Some (JStr ''NotifyEvent'') then hemit w h (Event p)
      else w)"
  using assms
  by (simp add: handleMessage_def JSON_parse_def)

theorem handleMessage_dispatch_witness:
  "js_get status_frame ''id'' = Inr None \<and>
   js_get status_frame ''method'' = Inr (Some (JStr ''NotifyStatus'')) \<and>
   js_get status_frame ''params'' = Inr (Some (JObj [(''ble'', JObj [])])) \<and>
   handleMessage (attached OPEN OPEN) 0 (Some status_frame) =
     Inr (hemit (attached OPEN OPEN) 0 (StatusUpdate (Some (JObj [(''ble'', JObj [])]))))"
  using handleMessage_dispatch
    [of status_frame "None" "Some (JStr ''NotifyStatus'')" "Some (JObj [(''ble'', JObj [])])"
      "attached OPEN OPEN" 0]
  by (simp add: status_frame_def)

text \<open>
  Against C8 as stated: a frame with the method \<open>Foo\<close> is a frame with an
  unrecognized method; the handler emits nothing for it, no \<open>error\<close> either.
\<close>

theorem unrecognized_method_ignored:
  "handleMessage (attached OPEN OPEN) 0 (Some (JObj [(''method'', JStr ''Foo'')])) =
     Inr (attached OPEN OPEN)"
  by (simp add: handleMessage_def JSON_parse_def)




end
